theory Spec2Isabelle
  imports Main "HOL-Library.Word"
begin

section \<open>Calendar values and the process environment\<close>

text \<open>
  Go's \<open>time.Time\<close> is read by \<open>CalculateAge\<close> only through \<open>Year()\<close>, \<open>Month()\<close> and
  \<open>Day()\<close>, so a \<open>Time\<close> is the record of these three readings. \<open>Month()\<close> has the integer
  type \<open>time.Month\<close> and is compared as an integer. The readings are far below the range
  of Go's \<open>int\<close>, so the year difference cannot wrap and is taken in \<open>int\<close>.
\<close>

record Time =
  Year :: int
  Month :: int
  Day :: int

text \<open>
  What a call can read or change outside its arguments: the wall clock that \<open>time.Now()\<close>
  reads, the state behind the repository, and the lines written to the logger. The clock
  reading is held fixed during one call of a service operation.
\<close>

datatype level = InfoLevel | ErrorLevel

record 's world =
  clock :: Time
  db :: 's
  logged :: "(level \<times> string) list"

definition time_Now :: "'s world \<Rightarrow> Time" where
  "time_Now w = clock w"

definition logger_Error :: "string \<Rightarrow> 's world \<Rightarrow> 's world" where
  "logger_Error msg w = w\<lparr>logged := logged w @ [(ErrorLevel, msg)]\<rparr>"

definition logger_Info :: "string \<Rightarrow> 's world \<Rightarrow> 's world" where
  "logger_Info msg w = w\<lparr>logged := logged w @ [(InfoLevel, msg)]\<rparr>"

section \<open>internal/models/user.go: CalculateAge\<close>

text \<open>
  \<open>func CalculateAge(dob time.Time) int\<close> has one parameter; \<open>now := time.Now()\<close> is read
  from the environment in its first line.
\<close>

definition CalculateAge :: "Time \<Rightarrow> 's world \<Rightarrow> int" where
  "CalculateAge dob w =
     (let now = time_Now w;
          age = Year now - Year dob
      in if Month now < Month dob \<or> (Month now = Month dob \<and> Day now < Day dob)
         then age - 1
         else age)"

text \<open>An environment whose clock shows the given calendar date, with nothing stored or logged.\<close>

definition at_date :: "int \<Rightarrow> int \<Rightarrow> int \<Rightarrow> unit world" where
  "at_date y m d = \<lparr>clock = \<lparr>Year = y, Month = m, Day = d\<rparr>, db = (), logged = []\<rparr>"

definition date :: "int \<Rightarrow> int \<Rightarrow> int \<Rightarrow> Time" where
  "date y m d = \<lparr>Year = y, Month = m, Day = d\<rparr>"

text \<open>
  The calendar order on dates that the specification's \<open>dob \<le> now\<close> refers to: the
  lexicographic order on (year, month, day).
\<close>

definition date_le :: "Time \<Rightarrow> Time \<Rightarrow> bool" where
  "date_le a b \<longleftrightarrow>
     Year a < Year b \<or>
     (Year a = Year b \<and> (Month a < Month b \<or> (Month a = Month b \<and> Day a \<le> Day b)))"

definition date_less :: "Time \<Rightarrow> Time \<Rightarrow> bool" where
  "date_less a b \<longleftrightarrow>
     Year a < Year b \<or>
     (Year a = Year b \<and> (Month a < Month b \<or> (Month a = Month b \<and> Day a < Day b)))"

section \<open>Date strings in the layout 2006-01-02\<close>

text \<open>
  The service parses and prints dates with \<open>time.Parse("2006-01-02", s)\<close> and
  \<open>t.Format("2006-01-02")\<close> of Go's standard library. For this one layout the parser
  accepts exactly four digits, a hyphen, two digits, a hyphen and two digits, with the month
  in 1..12 and the day within the length of that month, and nothing after them; the printer
  writes the year padded to four digits and month and day padded to two.
\<close>

definition isDigit :: "char \<Rightarrow> bool" where
  "isDigit c \<longleftrightarrow> c \<in> set ''0123456789''"

definition digitVal :: "char \<Rightarrow> int" where
  "digitVal c = int (of_char c) - 48"

definition isLeap :: "int \<Rightarrow> bool" where
  "isLeap y \<longleftrightarrow> y mod 4 = 0 \<and> (y mod 100 \<noteq> 0 \<or> y mod 400 = 0)"

definition daysIn :: "int \<Rightarrow> int \<Rightarrow> int" where
  "daysIn m y =
     (if m = 2 then (if isLeap y then 29 else 28)
      else if m = 4 \<or> m = 6 \<or> m = 9 \<or> m = 11 then 30
      else 31)"

text \<open>
  \<open>time.Date(year, month, day, 0, 0, 0, 0, loc)\<close> of the standard library, by which the
  tests of \<open>CalculateAge\<close> build a date of birth from the year, month and day of another
  date. It accepts values outside their usual ranges and normalises them: the month is
  brought into 1..12 by carrying into the year, and the date returned is the one \<open>day - 1\<close>
  days after the first of that month, reached here by carrying whole months. So February 29
  of a year that is not a leap year reads as March 1.
\<close>

function carry_days :: "int \<Rightarrow> int \<Rightarrow> int \<Rightarrow> Time" where
  "carry_days y m d =
     (if d < 1 then
        (if m = 1 then carry_days (y - 1) 12 (d + daysIn 12 (y - 1))
         else carry_days y (m - 1) (d + daysIn (m - 1) y))
      else if daysIn m y < d then
        (if m = 12 then carry_days (y + 1) 1 (d - daysIn 12 y)
         else carry_days y (m + 1) (d - daysIn m y))
      else \<lparr>Year = y, Month = m, Day = d\<rparr>)"
  by pat_completeness auto
termination
  by (relation "measure (\<lambda>(y, m, d). nat (if d < 1 then 32 - d else d))")
     (auto simp: daysIn_def)

declare carry_days.simps [simp del]

definition time_Date :: "int \<Rightarrow> int \<Rightarrow> int \<Rightarrow> Time" where
  "time_Date year month day =
     (let m = month - 1
      in carry_days (year + m div 12) (m mod 12 + 1) day)"

text \<open>The triples that are dates of the calendar: the specification's valid (Y, M, D).\<close>

definition valid_date :: "int \<Rightarrow> int \<Rightarrow> int \<Rightarrow> bool" where
  "valid_date y m d \<longleftrightarrow> 1 \<le> m \<and> m \<le> 12 \<and> 1 \<le> d \<and> d \<le> daysIn m y"

definition time_Parse :: "string \<Rightarrow> Time option" where
  "time_Parse s =
     (case s of
        [y1, y2, y3, y4, h1, m1, m2, h2, d1, d2] \<Rightarrow>
          if list_all isDigit [y1, y2, y3, y4, m1, m2, d1, d2] \<and> h1 = CHR ''-'' \<and> h2 = CHR ''-''
          then
            (let year = 1000 * digitVal y1 + 100 * digitVal y2 + 10 * digitVal y3 + digitVal y4;
                 month = 10 * digitVal m1 + digitVal m2;
                 day = 10 * digitVal d1 + digitVal d2
             in if month \<le> 0 \<or> 12 < month then None
                else if day < 1 \<or> daysIn month year < day then None
                else Some \<lparr>Year = year, Month = month, Day = day\<rparr>)
          else None
      | _ \<Rightarrow> None)"

fun decimal :: "nat \<Rightarrow> string" where
  "decimal n =
     (if n < 10 then [''0123456789'' ! n]
      else decimal (n div 10) @ [''0123456789'' ! (n mod 10)])"

declare decimal.simps [simp del]

definition appendInt :: "int \<Rightarrow> nat \<Rightarrow> string" where
  "appendInt x width =
     (let ds = decimal (nat \<bar>x\<bar>)
      in (if x < 0 then ''-'' else []) @ replicate (width - length ds) (CHR ''0'') @ ds)"

definition Format :: "Time \<Rightarrow> string" where
  "Format t = appendInt (Year t) 4 @ ''-'' @ appendInt (Month t) 2 @ ''-'' @ appendInt (Day t) 2"

section \<open>internal/models/user.go: requests and responses\<close>

record CreateUserRequest =
  Name :: string
  DOB :: string

record UpdateUserRequest =
  Name :: string
  DOB :: string

text \<open>\<open>Age *int\<close> with \<open>omitempty\<close>: a nil pointer is \<open>None\<close>.\<close>

record UserResponse =
  ID :: "32 word"
  Name :: string
  DOB :: string
  Age :: "int option"

section \<open>db/queries/users.sql and internal/repository: the user store\<close>

text \<open>
  A row of table \<open>users\<close>, with the columns every query selects or returns:
  \<open>id, name, dob, created_at, updated_at\<close>.
\<close>

record User =
  ID :: "32 word"
  Name :: string
  Dob :: Time
  CreatedAt :: Time
  UpdatedAt :: Time

text \<open>
  Go errors: the sentinel \<open>sql.ErrNoRows\<close>, which the service compares with \<open>==\<close>, and
  errors made from a message, as \<open>errors.New\<close> makes them.
\<close>

datatype error = sql_ErrNoRows | errors_New string

text \<open>
  The interface \<open>repository.UserRepository\<close>: the service is written against it, for any
  implementation. Each method takes the repository's state and returns the new one.
\<close>

record 's UserRepository =
  repo_CreateUser :: "string \<Rightarrow> Time \<Rightarrow> 's \<Rightarrow> (error + User) \<times> 's"
  repo_GetUserByID :: "32 word \<Rightarrow> 's \<Rightarrow> (error + User) \<times> 's"
  repo_ListUsers :: "32 word \<Rightarrow> 32 word \<Rightarrow> 's \<Rightarrow> (error + User list) \<times> 's"
  repo_UpdateUser :: "32 word \<Rightarrow> string \<Rightarrow> Time \<Rightarrow> 's \<Rightarrow> (error + User) \<times> 's"
  repo_DeleteUser :: "32 word \<Rightarrow> 's \<Rightarrow> error option \<times> 's"
  repo_CountUsers :: "'s \<Rightarrow> (error + 64 word) \<times> 's"

text \<open>
  The database behind the queries of \<open>users.sql\<close>: the rows of \<open>users\<close>, the next value
  of the \<open>id\<close> sequence, the server's \<open>CURRENT_TIMESTAMP\<close>, and the statements executed so
  far with their parameters.
\<close>

datatype statement =
    Q_CreateUser string Time
  | Q_GetUserByID "32 word"
  | Q_ListUsers "32 word" "32 word"
  | Q_UpdateUser string Time "32 word"
  | Q_DeleteUser "32 word"
  | Q_CountUsers

record database =
  users :: "User list"
  users_id_seq :: "32 word"
  current_timestamp :: Time
  executed :: "statement list"

definition execute :: "statement \<Rightarrow> database \<Rightarrow> database" where
  "execute q d = d\<lparr>executed := executed d @ [q]\<rparr>"

text \<open>\<open>INSERT INTO users (name, dob) VALUES ($1, $2) RETURNING ...\<close>\<close>

definition q_CreateUser :: "string \<Rightarrow> Time \<Rightarrow> database \<Rightarrow> (error + User) \<times> database" where
  "q_CreateUser name dob d0 =
     (let d = execute (Q_CreateUser name dob) d0;
          row = \<lparr>User.ID = users_id_seq d, User.Name = name, Dob = dob,
                 CreatedAt = current_timestamp d, UpdatedAt = current_timestamp d\<rparr>
      in (Inr row, d\<lparr>users := users d @ [row], users_id_seq := users_id_seq d + 1\<rparr>))"

text \<open>\<open>SELECT ... FROM users WHERE id = $1\<close>, one row expected.\<close>

definition q_GetUserByID :: "32 word \<Rightarrow> database \<Rightarrow> (error + User) \<times> database" where
  "q_GetUserByID id0 d0 =
     (let d = execute (Q_GetUserByID id0) d0
      in case find (\<lambda>u. User.ID u = id0) (users d) of
           None \<Rightarrow> (Inl sql_ErrNoRows, d)
         | Some u \<Rightarrow> (Inr u, d))"

text \<open>
  \<open>SELECT ... FROM users ORDER BY id LIMIT $1 OFFSET $2\<close>. The server refuses a negative
  \<open>LIMIT\<close> or \<open>OFFSET\<close>.
\<close>

definition q_ListUsers :: "32 word \<Rightarrow> 32 word \<Rightarrow> database \<Rightarrow> (error + User list) \<times> database" where
  "q_ListUsers limit offset d0 =
     (let d = execute (Q_ListUsers limit offset) d0
      in if sint limit < 0 then (Inl (errors_New ''LIMIT must not be negative''), d)
         else if sint offset < 0 then (Inl (errors_New ''OFFSET must not be negative''), d)
         else (Inr (take (unat limit) (drop (unat offset)
                 (sort_key (\<lambda>u. sint (User.ID u)) (users d)))), d))"

text \<open>
  \<open>UPDATE users SET name = $1, dob = $2, updated_at = CURRENT_TIMESTAMP WHERE id = $3
  RETURNING ...\<close>, one row expected.
\<close>

definition q_UpdateUser :: "32 word \<Rightarrow> string \<Rightarrow> Time \<Rightarrow> database \<Rightarrow> (error + User) \<times> database" where
  "q_UpdateUser id0 name dob d0 =
     (let d = execute (Q_UpdateUser name dob id0) d0;
          set_row = (\<lambda>u. if User.ID u = id0
                          then u\<lparr>User.Name := name, Dob := dob, UpdatedAt := current_timestamp d\<rparr>
                          else u)
      in case find (\<lambda>u. User.ID u = id0) (users d) of
           None \<Rightarrow> (Inl sql_ErrNoRows, d)
         | Some u \<Rightarrow> (Inr (set_row u), d\<lparr>users := map set_row (users d)\<rparr>))"

text \<open>\<open>DELETE FROM users WHERE id = $1\<close>, executed without a result row.\<close>

definition q_DeleteUser :: "32 word \<Rightarrow> database \<Rightarrow> error option \<times> database" where
  "q_DeleteUser id0 d0 =
     (let d = execute (Q_DeleteUser id0) d0
      in (None, d\<lparr>users := filter (\<lambda>u. User.ID u \<noteq> id0) (users d)\<rparr>))"

text \<open>\<open>SELECT COUNT(*) FROM users\<close>\<close>

definition q_CountUsers :: "database \<Rightarrow> (error + 64 word) \<times> database" where
  "q_CountUsers d0 =
     (let d = execute Q_CountUsers d0
      in (Inr (word_of_nat (length (users d))), d))"

text \<open>\<open>userRepository\<close> hands each call to the query of the same name.\<close>

definition userRepository :: "database UserRepository" where
  "userRepository =
     \<lparr>repo_CreateUser = q_CreateUser,
      repo_GetUserByID = q_GetUserByID,
      repo_ListUsers = q_ListUsers,
      repo_UpdateUser = q_UpdateUser,
      repo_DeleteUser = q_DeleteUser,
      repo_CountUsers = q_CountUsers\<rparr>"

section \<open>internal/service/service.go: the user service\<close>

text \<open>
  Each operation takes the repository it was built with and the environment, and returns
  its Go result pair as a sum (\<open>Inl\<close> the error) with the environment it leaves. The
  \<open>page\<close> and \<open>pageSize\<close> of \<open>ListUsers\<close> are Go \<open>int\<close>s, 64 bits wide, compared as
  signed values; \<open>int32(x)\<close> keeps the low 32 bits.
\<close>

definition to_response :: "User \<Rightarrow> int option \<Rightarrow> UserResponse" where
  "to_response user age =
     \<lparr>UserResponse.ID = User.ID user,
      UserResponse.Name = User.Name user,
      UserResponse.DOB = Format (Dob user),
      UserResponse.Age = age\<rparr>"

definition CreateUser ::
  "'s UserRepository \<Rightarrow> CreateUserRequest \<Rightarrow> 's world \<Rightarrow> (error + UserResponse) \<times> 's world" where
  "CreateUser repo req w =
     (case time_Parse (CreateUserRequest.DOB req) of
        None \<Rightarrow>
          (Inl (errors_New ''invalid date format, use YYYY-MM-DD''),
           logger_Error ''Invalid date format'' w)
      | Some dob \<Rightarrow>
          (case repo_CreateUser repo (CreateUserRequest.Name req) dob (db w) of
             (Inl err, s) \<Rightarrow> (Inl err, logger_Error ''Failed to create user'' (w\<lparr>db := s\<rparr>))
           | (Inr user, s) \<Rightarrow>
               (Inr (to_response user None),
                logger_Info ''User created successfully'' (w\<lparr>db := s\<rparr>))))"

definition GetUserByID ::
  "'s UserRepository \<Rightarrow> 32 word \<Rightarrow> 's world \<Rightarrow> (error + UserResponse) \<times> 's world" where
  "GetUserByID repo id0 w =
     (case repo_GetUserByID repo id0 (db w) of
        (Inl err, s) \<Rightarrow>
          if err = sql_ErrNoRows then (Inl (errors_New ''user not found''), w\<lparr>db := s\<rparr>)
          else (Inl err, logger_Error ''Failed to get user'' (w\<lparr>db := s\<rparr>))
      | (Inr user, s) \<Rightarrow>
          (let w1 = w\<lparr>db := s\<rparr>;
               age = CalculateAge (Dob user) w1
           in (Inr (to_response user (Some age)), w1)))"

definition ListUsers ::
  "'s UserRepository \<Rightarrow> 64 word \<Rightarrow> 64 word \<Rightarrow> 's world \<Rightarrow>
     (error + UserResponse list \<times> 64 word) \<times> 's world" where
  "ListUsers repo page0 pageSize0 w =
     (let page = (if sint page0 < 1 then 1 else page0);
          pageSize = (if sint pageSize0 < 1 \<or> 100 < sint pageSize0 then 10 else pageSize0);
          offset = (page - 1) * pageSize
      in case repo_ListUsers repo (ucast pageSize) (ucast offset) (db w) of
           (Inl err, s) \<Rightarrow> (Inl err, logger_Error ''Failed to list users'' (w\<lparr>db := s\<rparr>))
         | (Inr rows, s) \<Rightarrow>
             (case repo_CountUsers repo s of
                (Inl err, s') \<Rightarrow> (Inl err, logger_Error ''Failed to count users'' (w\<lparr>db := s'\<rparr>))
              | (Inr totalCount, s') \<Rightarrow>
                  (let w1 = w\<lparr>db := s'\<rparr>;
                       responses = map (\<lambda>user. to_response user (Some (CalculateAge (Dob user) w1))) rows
                   in (Inr (responses, totalCount), w1))))"

definition UpdateUser ::
  "'s UserRepository \<Rightarrow> 32 word \<Rightarrow> UpdateUserRequest \<Rightarrow> 's world \<Rightarrow>
     (error + UserResponse) \<times> 's world" where
  "UpdateUser repo id0 req w =
     (case time_Parse (UpdateUserRequest.DOB req) of
        None \<Rightarrow>
          (Inl (errors_New ''invalid date format, use YYYY-MM-DD''),
           logger_Error ''Invalid date format'' w)
      | Some dob \<Rightarrow>
          (case repo_UpdateUser repo id0 (UpdateUserRequest.Name req) dob (db w) of
             (Inl err, s) \<Rightarrow>
               if err = sql_ErrNoRows then (Inl (errors_New ''user not found''), w\<lparr>db := s\<rparr>)
               else (Inl err, logger_Error ''Failed to update user'' (w\<lparr>db := s\<rparr>))
           | (Inr user, s) \<Rightarrow>
               (Inr (to_response user None),
                logger_Info ''User updated successfully'' (w\<lparr>db := s\<rparr>))))"

definition DeleteUser :: "'s UserRepository \<Rightarrow> 32 word \<Rightarrow> 's world \<Rightarrow> error option \<times> 's world" where
  "DeleteUser repo id0 w =
     (case repo_DeleteUser repo id0 (db w) of
        (Some err, s) \<Rightarrow>
          if err = sql_ErrNoRows then (Some (errors_New ''user not found''), w\<lparr>db := s\<rparr>)
          else (Some err, logger_Error ''Failed to delete user'' (w\<lparr>db := s\<rparr>))
      | (None, s) \<Rightarrow> (None, logger_Info ''User deleted successfully'' (w\<lparr>db := s\<rparr>)))"

section \<open>internal/models/user.go: Validate\<close>


definition RuneCountInString :: "string \<Rightarrow> nat" where
  "RuneCountInString s =
     length (filter (\<lambda>c. \<not> (128 \<le> (of_char c :: nat) \<and> (of_char c :: nat) < 192)) s)"

definition fieldError :: "string \<Rightarrow> string \<Rightarrow> string \<Rightarrow> string" where
  "fieldError strct field tag =
     ''Key: '' @ [CHR 0x27] @ strct @ ''.'' @ field @ [CHR 0x27] @
     '' Error:Field validation for '' @ [CHR 0x27] @ field @ [CHR 0x27] @
     '' failed on the '' @ [CHR 0x27] @ tag @ [CHR 0x27] @ '' tag''"

definition validate_Name :: "string \<Rightarrow> string option" where
  "validate_Name s =
     (if s = [] then Some ''required''
      else if RuneCountInString s < 1 then Some ''min''
      else if 255 < RuneCountInString s then Some ''max''
      else None)"

definition validate_DOB :: "string \<Rightarrow> string option" where
  "validate_DOB s =
     (if s = [] then Some ''required''
      else if time_Parse s = None then Some ''datetime''
      else None)"

fun join_lines :: "string list \<Rightarrow> string" where
  "join_lines [] = []"
| "join_lines [l] = l"
| "join_lines (l # ls) = l @ [CHR 0x0A] @ join_lines ls"

definition validate_Struct :: "string \<Rightarrow> string \<Rightarrow> string \<Rightarrow> error option" where
  "validate_Struct strct name dob =
     (let errs =
            (case validate_Name name of
               None \<Rightarrow> []
             | Some tag \<Rightarrow> [fieldError strct ''Name'' tag]) @
            (case validate_DOB dob of
               None \<Rightarrow> []
             | Some tag \<Rightarrow> [fieldError strct ''DOB'' tag])
      in if errs = [] then None else Some (errors_New (join_lines errs)))"



section \<open>internal/handler/user_handler.go: the create and update handlers\<close>




text \<open>
  Sample environments over the database: a server holding one user, born 1990-12-25, read
  at two different dates, and an empty server.
\<close>

definition sample_user :: User where
  "sample_user =
     \<lparr>User.ID = 1, User.Name = ''Alice'', Dob = date 1990 12 25,
      CreatedAt = date 2024 1 1, UpdatedAt = date 2024 1 1\<rparr>"

definition sample_database :: database where
  "sample_database =
     \<lparr>users = [sample_user], users_id_seq = 2, current_timestamp = date 2024 12 18,
      executed = []\<rparr>"

definition sample_world :: "Time \<Rightarrow> database world" where
  "sample_world now = \<lparr>clock = now, db = sample_database, logged = []\<rparr>"

text \<open>Sample requests: two with well-formed dates of birth, two with malformed ones.\<close>

definition sample_create :: CreateUserRequest where
  "sample_create = \<lparr>CreateUserRequest.Name = ''Bob'', CreateUserRequest.DOB = ''2000-01-01''\<rparr>"

definition sample_update :: UpdateUserRequest where
  "sample_update =
     \<lparr>UpdateUserRequest.Name = ''Alicia'', UpdateUserRequest.DOB = ''1990-12-24''\<rparr>"



section \<open>Properties of CalculateAge\<close>

lemma CalculateAge_future_negative:
  "date_less (time_Now w) dob \<Longrightarrow> CalculateAge dob w < 0"
  by (auto simp: CalculateAge_def date_less_def Let_def)

text \<open>
  C1. For every date of birth and every clock reading \<open>now\<close>, the age returned is
  \<open>now.year - dob.year\<close>, less exactly 1 if and only if \<open>now.month < dob.month\<close>, or the
  months are equal and \<open>now.day < dob.day\<close>; otherwise it is the year difference unchanged.
\<close>

theorem CalculateAge_formula:
  "CalculateAge dob w =
     Year (time_Now w) - Year dob -
       (if Month (time_Now w) < Month dob \<or>
           (Month (time_Now w) = Month dob \<and> Day (time_Now w) < Day dob)
        then 1 else 0)"
  by (simp add: CalculateAge_def Let_def)

text \<open>
  C3. For every date of birth on the same calendar day as the clock reading or on an
  earlier one, the age is at least 0.
\<close>

theorem CalculateAge_nonneg:
  "date_le dob (time_Now w) \<Longrightarrow> 0 \<le> CalculateAge dob w"
  by (auto simp: CalculateAge_def date_le_def Let_def)

theorem CalculateAge_nonneg_witness:
  "date_le (date 1990 12 25) (time_Now (at_date 2024 12 18)) \<and>
   0 \<le> CalculateAge (date 1990 12 25) (at_date 2024 12 18)"
proof -
  have h: "date_le (date 1990 12 25) (time_Now (at_date 2024 12 18))"
    by (simp add: date_le_def date_def time_Now_def at_date_def)
  from CalculateAge_nonneg [OF h] h show ?thesis by simp
qed

lemma time_Date_valid: "valid_date y m d \<Longrightarrow> time_Date y m d = date y m d"
proof -
  assume v: "valid_date y m d"
  then have "(m - 1) div 12 = 0" "(m - 1) mod 12 + 1 = m"
    by (auto simp: valid_date_def)
  with v show ?thesis
    by (simp add: time_Date_def date_def valid_date_def carry_days.simps [of y m d])
qed

lemma CalculateAge_same_month_day:
  assumes "Month (time_Now w) = Month dob" "Day (time_Now w) = Day dob"
  shows "CalculateAge dob w = Year (time_Now w) - Year dob"
  using assms by (simp add: CalculateAge_def Let_def)

text \<open>
  Thirty years before a leap year is never a leap year, so on every February 29 the date
  of birth built from the year less 30 and the same month and day is March 1, and the age
  is 29.
\<close>

lemma leap_day_thirty_years_on:
  assumes l: "isLeap Y" and n: "time_Now w = time_Date Y 2 29"
  shows "CalculateAge (time_Date (Y - 30) 2 29) w = 29"
proof -
  from l have "Y mod 4 = 0" by (simp add: isLeap_def)
  then have "(Y - 30) mod 4 = 2" by presburger
  then have nl: "\<not> isLeap (Y - 30)" by (simp add: isLeap_def)
  have d: "time_Date (Y - 30) 2 29 = date (Y - 30) 3 1"
    using nl
    by (simp add: time_Date_def date_def daysIn_def carry_days.simps [of "Y - 30" 2 29]
          carry_days.simps [of "Y - 30" 3 1])
  have v: "valid_date Y 2 29"
    using l by (simp add: valid_date_def daysIn_def)
  then have "time_Now w = date Y 2 29"
    using n by (simp add: time_Date_valid)
  with d show ?thesis
    by (simp add: CalculateAge_def date_def)
qed

text \<open>
  C6, as stated, fails at the valid date (2024, 2, 29): the date of birth built from
  (2024 - 30, 2, 29) is 1994-03-01, the clock's month 2 is before month 3, the decrement
  applies and the age is 29, not 30.
\<close>

theorem CalculateAge_birthday_today_leap_day:
  "valid_date 2024 2 29 \<and>
   CalculateAge (time_Date (2024 - 30) 2 29) (sample_world (time_Date 2024 2 29)) = 29"
  by code_simp

text \<open>
  C6, amended. When the clock's month and day equal those of the date of birth, no
  decrement is applied: the age is the year difference. So for every (Y, M, D) for which
  both (Y, M, D) and (Y - 30, M, D) are dates of the calendar, the age of a person born on
  the latter is 30 on the former.
\<close>

theorem CalculateAge_birthday_today:
  "(Month (time_Now w) = Month dob \<and> Day (time_Now w) = Day dob \<longrightarrow>
      CalculateAge dob w = Year (time_Now w) - Year dob) \<and>
   (valid_date Y M D \<and> valid_date (Y - 30) M D \<and> time_Now w' = time_Date Y M D \<longrightarrow>
      CalculateAge (time_Date (Y - 30) M D) w' = 30)"
proof -
  have "CalculateAge (time_Date (Y - 30) M D) w' = 30"
    if "valid_date Y M D" "valid_date (Y - 30) M D" "time_Now w' = time_Date Y M D"
    using that by (simp add: time_Date_valid date_def CalculateAge_def)
  then show ?thesis
    using CalculateAge_same_month_day [of w dob] by blast
qed

theorem CalculateAge_birthday_today_witness:
  "Month (time_Now (sample_world (time_Date 2024 12 18))) = Month (time_Date 1990 12 18) \<and>
   Day (time_Now (sample_world (time_Date 2024 12 18))) = Day (time_Date 1990 12 18) \<and>
   CalculateAge (time_Date 1990 12 18) (sample_world (time_Date 2024 12 18)) = 34 \<and>
   valid_date 2024 12 18 \<and> valid_date (2024 - 30) 12 18 \<and>
   time_Now (sample_world (time_Date 2024 12 18)) = time_Date 2024 12 18 \<and>
   CalculateAge (time_Date (2024 - 30) 12 18) (sample_world (time_Date 2024 12 18)) = 30"
proof -
  let ?w = "sample_world (time_Date 2024 12 18)"
  have n: "time_Now ?w = date 2024 12 18"
    by (simp add: time_Now_def sample_world_def time_Date_valid valid_date_def daysIn_def)
  have b: "time_Date 1990 12 18 = date 1990 12 18"
    by (simp add: time_Date_valid valid_date_def daysIn_def)
  have v: "valid_date 2024 12 18" "valid_date (2024 - 30) 12 18"
    by (simp_all add: valid_date_def daysIn_def)
  have t: "time_Now ?w = time_Date 2024 12 18"
    by (simp add: time_Now_def sample_world_def)
  have m: "Month (time_Now ?w) = Month (time_Date 1990 12 18)"
      "Day (time_Now ?w) = Day (time_Date 1990 12 18)"
    by (simp_all add: n b date_def)
  have y: "Year (time_Now ?w) - Year (time_Date 1990 12 18) = 34"
    by (simp add: n b date_def)
  note c = CalculateAge_birthday_today [where w = ?w and dob = "time_Date 1990 12 18"
      and Y = 2024 and M = 12 and D = 18 and w' = ?w]
  from c m y v t show ?thesis by simp
qed

text \<open>
  C7. Across the birthday the age changes by exactly one: with the date of birth 30 years
  before day \<open>D\<close> of month \<open>M\<close>, the age is 29 on day \<open>D - 1\<close> of that month and 30 on day
  \<open>D + 1\<close>, for every year, month and day (so in particular whenever \<open>D - 1\<close>, respectively
  \<open>D + 1\<close>, is a day of the month).
\<close>

theorem CalculateAge_birthday_boundary:
  "CalculateAge (date (Y - 30) M D) (at_date Y M (D - 1)) = 29 \<and>
   CalculateAge (date (Y - 30) M D) (at_date Y M (D + 1)) = 30"
  by (simp add: CalculateAge_def time_Now_def at_date_def date_def)

text \<open>
  C8. A date of birth on February 29 gets no special treatment: on February 28 of any
  year the comparison of the days, 28 < 29, applies the decrement, so the birthday counts
  as not yet occurred and the age is the year difference less one.
\<close>

theorem CalculateAge_leap_day:
  "CalculateAge (date Yb 2 29) (at_date Yn 2 28) = Yn - Yb - 1"
  by (simp add: CalculateAge_def time_Now_def at_date_def date_def)

text \<open>
  C9. For every date of birth strictly after the clock reading, the computation checks
  nothing and returns an integer that is negative or zero; no error value exists in its
  result type.
\<close>

theorem CalculateAge_future_dob:
  "date_less (time_Now w) dob \<Longrightarrow> CalculateAge dob w \<le> 0"
  using CalculateAge_future_negative [of w dob] by simp

theorem CalculateAge_future_dob_witness:
  "date_less (time_Now (at_date 2024 12 18)) (date 2024 12 25) \<and>
   CalculateAge (date 2024 12 25) (at_date 2024 12 18) \<le> 0"
proof -
  have h: "date_less (time_Now (at_date 2024 12 18)) (date 2024 12 25)"
    by (simp add: date_less_def date_def time_Now_def at_date_def)
  from CalculateAge_future_dob [OF h] h show ?thesis by simp
qed

text \<open>
  C2, as stated, fails: the reference instant is not an input of \<open>CalculateAge\<close>. The
  same call, with the same date of birth, returns 33 under a clock showing 2024-12-18 and
  35 under a clock showing 2025-12-25.
\<close>

theorem CalculateAge_reads_clock:
  "CalculateAge (date 1990 12 25) (at_date 2024 12 18) = 33 \<and>
   CalculateAge (date 1990 12 25) (at_date 2025 12 25) = 35 \<and>
   CalculateAge (date 1990 12 25) (at_date 2024 12 18) \<noteq>
     CalculateAge (date 1990 12 25) (at_date 2025 12 25)"
  by (simp add: CalculateAge_def time_Now_def at_date_def date_def)

text \<open>
  C2, amended. \<open>CalculateAge\<close> takes the date of birth only and reads the reference
  instant from the process clock. It reads nothing else, writes nothing and returns an
  integer: in any two environments whose clocks show the same reading, whatever their
  stores and logs hold, it returns the same integer for the same date of birth.
\<close>

theorem CalculateAge_determined_by_clock:
  "time_Now w1 = time_Now w2 \<Longrightarrow> CalculateAge dob w1 = CalculateAge dob w2"
  by (simp add: CalculateAge_def)

theorem CalculateAge_determined_by_clock_witness:
  "time_Now (at_date 2024 12 18) = time_Now (sample_world (date 2024 12 18)) \<and>
   CalculateAge (date 1990 12 25) (at_date 2024 12 18) =
   CalculateAge (date 1990 12 25) (sample_world (date 2024 12 18))"
proof -
  have h: "time_Now (at_date 2024 12 18) = time_Now (sample_world (date 2024 12 18))"
    by (simp add: time_Now_def at_date_def sample_world_def date_def)
  from CalculateAge_determined_by_clock [OF h] h show ?thesis by simp
qed

section \<open>Properties of the user service\<close>

lemma CalculateAge_db_update: "CalculateAge dob (w\<lparr>db := s\<rparr>) = CalculateAge dob w"
  by (simp add: CalculateAge_def time_Now_def)

lemma db_logger_Error: "db (logger_Error msg w) = db w"
  by (simp add: logger_Error_def)

lemma db_logger_Info: "db (logger_Info msg w) = db w"
  by (simp add: logger_Info_def)

subsection \<open>Reads compute the age; nothing stores it\<close>

lemma GetUserByID_age:
  assumes "fst (GetUserByID repo id0 w) = Inr r"
  shows "\<exists>user s. repo_GetUserByID repo id0 (db w) = (Inr user, s) \<and>
            r = to_response user (Some (CalculateAge (Dob user) w))"
  using assms
  by (auto simp: GetUserByID_def Let_def CalculateAge_db_update
           split: prod.splits sum.splits if_splits)


lemma ListUsers_age:
  assumes "fst (ListUsers repo page pageSize w) = Inr (rs, n)"
  shows "\<exists>rows lim off s. repo_ListUsers repo lim off (db w) = (Inr rows, s) \<and>
      rs = map (\<lambda>user. to_response user (Some (CalculateAge (Dob user) w))) rows"
  using assms unfolding ListUsers_def Let_def
  by (auto simp: CalculateAge_db_update split: prod.splits sum.splits if_splits)

lemma CreateUser_no_age:
  "fst (CreateUser repo req w) = Inr r \<Longrightarrow> UserResponse.Age r = None"
  by (auto simp: CreateUser_def to_response_def split: option.splits prod.splits sum.splits)

lemma UpdateUser_no_age:
  "fst (UpdateUser repo id0 req w) = Inr r \<Longrightarrow> UserResponse.Age r = None"
  by (auto simp: UpdateUser_def to_response_def
           split: option.splits prod.splits sum.splits if_splits)

lemma CreateUser_db:
  "db w' = db w \<Longrightarrow> db (snd (CreateUser repo req w')) = db (snd (CreateUser repo req w))"
  by (auto simp: CreateUser_def db_logger_Error db_logger_Info
           split: option.splits prod.splits sum.splits)

lemma UpdateUser_db:
  "db w' = db w \<Longrightarrow>
   db (snd (UpdateUser repo id0 req w')) = db (snd (UpdateUser repo id0 req w))"
  by (auto simp: UpdateUser_def db_logger_Error db_logger_Info
           split: option.splits prod.splits sum.splits)

lemma GetUserByID_db:
  "db w' = db w \<Longrightarrow> db (snd (GetUserByID repo id0 w')) = db (snd (GetUserByID repo id0 w))"
  by (auto simp: GetUserByID_def Let_def db_logger_Error split: prod.splits sum.splits)

lemma ListUsers_db:
  "db w' = db w \<Longrightarrow>
   db (snd (ListUsers repo page pageSize w')) = db (snd (ListUsers repo page pageSize w))"
  unfolding ListUsers_def Let_def
  by (auto simp: db_logger_Error split: prod.splits sum.splits)

text \<open>What \<open>CreateUser\<close> adds to table \<open>users\<close>: one row of id, name, date of birth and the two timestamps.\<close>

lemma CreateUser_stored_row:
  assumes "time_Parse (CreateUserRequest.DOB req) = Some dob"
  shows "users (db (snd (CreateUser userRepository req w))) =
     users (db w) @
       [\<lparr>User.ID = users_id_seq (db w), User.Name = CreateUserRequest.Name req, Dob = dob,
         CreatedAt = current_timestamp (db w), UpdatedAt = current_timestamp (db w)\<rparr>]"
  using assms
  by (simp add: CreateUser_def userRepository_def q_CreateUser_def execute_def Let_def
        db_logger_Info)

text \<open>
  C4. The age is derived on every read and never stored. A row of the store has the fields
  id, name, date of birth and two timestamps, and for every repository:
  every successful get-by-id answers with the age computed, at the clock reading of that
  call, from the date of birth of the row the repository returned for it; every successful
  list does so for each row returned; the answers of create and update carry no age; and
  the state in which each of the four operations leaves the repository is the same under
  any two environments that start from the same repository state, whatever their clocks
  show, so nothing computed from the clock, an age in particular, is written to it.
\<close>

theorem age_derived_never_stored:
  "(\<forall>r. fst (GetUserByID repo id0 w) = Inr r \<longrightarrow>
       (\<exists>user s. repo_GetUserByID repo id0 (db w) = (Inr user, s) \<and>
          r = to_response user (Some (CalculateAge (Dob user) w)))) \<and>
   (\<forall>rs n. fst (ListUsers repo page pageSize w) = Inr (rs, n) \<longrightarrow>
       (\<exists>rows lim off s. repo_ListUsers repo lim off (db w) = (Inr rows, s) \<and>
          rs = map (\<lambda>user. to_response user (Some (CalculateAge (Dob user) w))) rows)) \<and>
   (\<forall>r. fst (CreateUser repo req w) = Inr r \<longrightarrow> UserResponse.Age r = None) \<and>
   (\<forall>r. fst (UpdateUser repo id0 ureq w) = Inr r \<longrightarrow> UserResponse.Age r = None) \<and>
   (db w' = db w \<longrightarrow>
      db (snd (CreateUser repo req w')) = db (snd (CreateUser repo req w)) \<and>
      db (snd (UpdateUser repo id0 ureq w')) = db (snd (UpdateUser repo id0 ureq w)) \<and>
      db (snd (GetUserByID repo id0 w')) = db (snd (GetUserByID repo id0 w)) \<and>
      db (snd (ListUsers repo page pageSize w')) = db (snd (ListUsers repo page pageSize w)))"
  using GetUserByID_age [of repo id0 w] ListUsers_age [of repo page pageSize w]
    CreateUser_no_age [of repo req w] UpdateUser_no_age [of repo id0 ureq w]
    CreateUser_db [of w' w repo req] UpdateUser_db [of w' w repo id0 ureq]
    GetUserByID_db [of w' w repo id0] ListUsers_db [of w' w repo page pageSize]
  by blast

theorem age_derived_never_stored_witness:
  "fst (GetUserByID userRepository 1 (sample_world (date 2024 12 18))) =
     Inr \<lparr>UserResponse.ID = 1, Name = ''Alice'', DOB = ''1990-12-25'', Age = Some 33\<rparr> \<and>
   fst (GetUserByID userRepository 1 (sample_world (date 2025 12 25))) =
     Inr \<lparr>UserResponse.ID = 1, Name = ''Alice'', DOB = ''1990-12-25'', Age = Some 35\<rparr> \<and>
   (\<exists>user s.
      repo_GetUserByID userRepository 1 (db (sample_world (date 2024 12 18))) = (Inr user, s) \<and>
      \<lparr>UserResponse.ID = 1, Name = ''Alice'', DOB = ''1990-12-25'', Age = Some 33\<rparr> =
        to_response user (Some (CalculateAge (Dob user) (sample_world (date 2024 12 18))))) \<and>
   fst (ListUsers userRepository 1 10 (sample_world (date 2024 12 18))) =
     Inr ([\<lparr>UserResponse.ID = 1, Name = ''Alice'', DOB = ''1990-12-25'', Age = Some 33\<rparr>], 1) \<and>
   (\<exists>rows lim off s.
      repo_ListUsers userRepository lim off (db (sample_world (date 2024 12 18))) =
        (Inr rows, s) \<and>
      [\<lparr>UserResponse.ID = 1, Name = ''Alice'', DOB = ''1990-12-25'', Age = Some 33\<rparr>] =
        map (\<lambda>user. to_response user
               (Some (CalculateAge (Dob user) (sample_world (date 2024 12 18))))) rows) \<and>
   fst (CreateUser userRepository sample_create (sample_world (date 2024 12 18))) =
     Inr \<lparr>UserResponse.ID = 2, Name = ''Bob'', DOB = ''2000-01-01'', Age = None\<rparr> \<and>
   fst (UpdateUser userRepository 1 sample_update (sample_world (date 2024 12 18))) =
     Inr \<lparr>UserResponse.ID = 1, Name = ''Alicia'', DOB = ''1990-12-24'', Age = None\<rparr> \<and>
   db (sample_world (date 2025 12 25)) = db (sample_world (date 2024 12 18)) \<and>
   db (snd (CreateUser userRepository sample_create (sample_world (date 2025 12 25)))) =
     db (snd (CreateUser userRepository sample_create (sample_world (date 2024 12 18)))) \<and>
   db (snd (UpdateUser userRepository 1 sample_update (sample_world (date 2025 12 25)))) =
     db (snd (UpdateUser userRepository 1 sample_update (sample_world (date 2024 12 18)))) \<and>
   db (snd (GetUserByID userRepository 1 (sample_world (date 2025 12 25)))) =
     db (snd (GetUserByID userRepository 1 (sample_world (date 2024 12 18)))) \<and>
   db (snd (ListUsers userRepository 1 10 (sample_world (date 2025 12 25)))) =
     db (snd (ListUsers userRepository 1 10 (sample_world (date 2024 12 18))))"
proof -
  let ?w = "sample_world (date 2024 12 18)"
  let ?w' = "sample_world (date 2025 12 25)"
  have g: "fst (GetUserByID userRepository 1 ?w) =
      Inr \<lparr>UserResponse.ID = 1, Name = ''Alice'', DOB = ''1990-12-25'', Age = Some 33\<rparr>"
    by code_simp
  have g': "fst (GetUserByID userRepository 1 ?w') =
      Inr \<lparr>UserResponse.ID = 1, Name = ''Alice'', DOB = ''1990-12-25'', Age = Some 35\<rparr>"
    by code_simp
  have l: "fst (ListUsers userRepository 1 10 ?w) =
      Inr ([\<lparr>UserResponse.ID = 1, Name = ''Alice'', DOB = ''1990-12-25'', Age = Some 33\<rparr>], 1)"
    by code_simp
  have c: "fst (CreateUser userRepository sample_create ?w) =
      Inr \<lparr>UserResponse.ID = 2, Name = ''Bob'', DOB = ''2000-01-01'', Age = None\<rparr>"
    by code_simp
  have u: "fst (UpdateUser userRepository 1 sample_update ?w) =
      Inr \<lparr>UserResponse.ID = 1, Name = ''Alicia'', DOB = ''1990-12-24'', Age = None\<rparr>"
    by code_simp
  have d: "db ?w' = db ?w"
    by (simp add: sample_world_def)
  note t = age_derived_never_stored [where repo = userRepository and ?id0.0 = 1 and w = ?w
      and w' = ?w' and page = 1 and pageSize = 10 and req = sample_create
      and ureq = sample_update]
  from t g g' l c u d show ?thesis by blast
qed

subsection \<open>Malformed dates of birth\<close>





text \<open>A request that passes validation has a date of birth that parses.\<close>

lemma validate_Struct_None:
  "validate_Struct strct name dob = None \<Longrightarrow> time_Parse dob \<noteq> None"
  by (auto simp: validate_Struct_def validate_DOB_def Let_def split: option.splits if_splits)








subsection \<open>Pagination of ListUsers\<close>

text \<open>\<open>int32(x)\<close> of a 64-bit \<open>x\<close> keeps the low 32 bits, read as a signed value.\<close>

lemma sint_int32:
  fixes x :: "64 word"
  shows "sint (ucast x :: 32 word) = signed_take_bit 31 (sint x)"
proof -
  have a: "sint (ucast x :: 32 word) = signed_take_bit 31 (uint x)"
    by (simp add: signed_ucast_eq)
  have b: "signed_take_bit 31 (sint x) = signed_take_bit 31 (uint x)"
    by (simp add: sint_uint [of x] signed_take_bit_signed_take_bit)
  from a b show ?thesis by simp
qed

lemma sint_int32_small:
  fixes x :: "64 word"
  assumes "- (2 ^ 31) \<le> sint x" "sint x < 2 ^ 31"
  shows "sint (ucast x :: 32 word) = sint x"
  using assms by (simp add: sint_int32 signed_take_bit_int_eq_self)

text \<open>The limit handed to the store is always between 1 and 100.\<close>

lemma pageSize_clamped:
  fixes pageSize :: "64 word"
  defines "ps \<equiv> (if sint pageSize < 1 \<or> 100 < sint pageSize then 10 else pageSize)"
  shows "1 \<le> sint (ucast ps :: 32 word) \<and> sint (ucast ps :: 32 word) \<le> 100"
proof -
  have r: "1 \<le> sint ps \<and> sint ps \<le> 100"
    by (simp add: ps_def)
  then have "sint (ucast ps :: 32 word) = sint ps"
    by (intro sint_int32_small) auto
  with r show ?thesis by simp
qed

lemma executed_q_ListUsers:
  "executed (snd (q_ListUsers lim off d)) = executed d @ [Q_ListUsers lim off]"
  by (simp add: q_ListUsers_def execute_def Let_def)

lemma executed_q_CountUsers:
  "executed (snd (q_CountUsers d)) = executed d @ [Q_CountUsers]"
  by (simp add: q_CountUsers_def execute_def Let_def)

text \<open>
  The first statement \<open>ListUsers\<close> executes is the list query, with the clamped page size
  as limit and the low 32 bits of \<open>(page - 1) * pageSize\<close> as offset.
\<close>

lemma ListUsers_statements:
  "\<exists>rest. executed (db (snd (ListUsers userRepository page pageSize w))) =
      executed (db w) @
        Q_ListUsers
          (ucast (if sint pageSize < 1 \<or> 100 < sint pageSize then 10 else pageSize))
          (ucast (((if sint page < 1 then 1 else page) - 1) *
                  (if sint pageSize < 1 \<or> 100 < sint pageSize then 10 else pageSize))) # rest"
proof -
  let ?lim = "ucast (if sint pageSize < 1 \<or> 100 < sint pageSize then 10 else pageSize) :: 32 word"
  let ?off = "ucast (((if sint page < 1 then 1 else page) - 1) *
                  (if sint pageSize < 1 \<or> 100 < sint pageSize then 10 else pageSize)) :: 32 word"
  obtain r d where q: "q_ListUsers ?lim ?off (db w) = (r, d)"
    by (cases "q_ListUsers ?lim ?off (db w)")
  then have d: "executed d = executed (db w) @ [Q_ListUsers ?lim ?off]"
    using executed_q_ListUsers [of ?lim ?off "db w"] by simp
  obtain r' d' where c: "q_CountUsers d = (r', d')"
    by (cases "q_CountUsers d")
  then have d': "executed d' = executed d @ [Q_CountUsers]"
    using executed_q_CountUsers [of d] by simp
  show ?thesis
    using q c d d'
    by (cases r; cases r')
       (simp_all add: ListUsers_def userRepository_def Let_def logger_Error_def)
qed

text \<open>
  While the page is at most 21474837 the product fits 32 bits for every page size up to
  100, and the offset handed to the store is \<open>(page - 1) * pageSize\<close>, not negative.
\<close>

lemma offset_in_range:
  fixes page pageSize :: "64 word"
  assumes p: "1 \<le> sint page" "sint page \<le> 21474837"
      and s: "1 \<le> sint pageSize" "sint pageSize \<le> 100"
  shows "sint (ucast ((page - 1) * pageSize) :: 32 word) = (sint page - 1) * sint pageSize"
    and "0 \<le> sint (ucast ((page - 1) * pageSize) :: 32 word)"
proof -
  have lo: "0 \<le> (sint page - 1) * sint pageSize"
    using p s by simp
  have "(sint page - 1) * sint pageSize \<le> 21474836 * 100"
    using p s by (intro mult_mono) auto
  then have hi: "(sint page - 1) * sint pageSize < 2 ^ 31"
    by simp
  have m: "signed_take_bit 63 (sint page - 1) = sint page - 1"
    using p by (simp add: signed_take_bit_int_eq_self)
  have prod: "sint ((page - 1) * pageSize) = (sint page - 1) * sint pageSize"
    using lo hi by (simp add: sint_word_ariths m signed_take_bit_int_eq_self)
  show e: "sint (ucast ((page - 1) * pageSize) :: 32 word) = (sint page - 1) * sint pageSize"
    using lo hi prod by (simp add: sint_int32_small)
  show "0 \<le> sint (ucast ((page - 1) * pageSize) :: 32 word)"
    using e lo by simp
qed

text \<open>
  C10. \<open>ListUsers\<close> replaces a page below 1 by 1 and a page size outside 1..100 by 10, and
  the limit it hands to the store lies in 1..100; but the page has no upper bound, and the
  offset it hands to the store is \<open>int32((page - 1) * pageSize)\<close>. With page 214748366 and
  page size 10 the product is 2147483650, whose low 32 bits read as the negative offset
  -2147483646: the store is queried with that offset and refuses the query.
\<close>

theorem ListUsers_offset_negative:
  "executed (db (snd (ListUsers userRepository 214748366 10 (sample_world (date 2024 12 18))))) =
     [Q_ListUsers 10 2147483650] \<and>
   sint (2147483650 :: 32 word) = - 2147483646 \<and>
   fst (ListUsers userRepository 214748366 10 (sample_world (date 2024 12 18))) =
     Inl (errors_New ''OFFSET must not be negative'')"
proof -
  have a: "executed (db (snd (ListUsers userRepository 214748366 10
      (sample_world (date 2024 12 18))))) = [Q_ListUsers 10 2147483650]"
    by code_simp
  have b: "sint (2147483650 :: 32 word) = - 2147483646"
    by simp
  have c: "fst (ListUsers userRepository 214748366 10 (sample_world (date 2024 12 18))) =
      Inl (errors_New ''OFFSET must not be negative'')"
    by code_simp
  from a b c show ?thesis by simp
qed

end
